theory Spec2Isabelle
  imports Complex_Main "HOL-Library.Word"
begin

section \<open>Arbitrary-precision numbers of the source\<close>

text \<open>
  The source computes with Go's \<open>math/big\<close>: \<open>*big.Int\<close> is an unbounded integer, modelled as
  \<open>int\<close>; \<open>*big.Rat\<close> is an exact rational kept in lowest terms with a positive denominator,
  modelled as \<open>rat\<close>. \<open>Rat.Num\<close> and \<open>Rat.Denom\<close> read the two parts of the normal form.
\<close>

definition Num :: "rat \<Rightarrow> int" where
  "Num r = fst (quotient_of r)"

definition Denom :: "rat \<Rightarrow> int" where
  "Denom r = snd (quotient_of r)"

text \<open>
  \<open>big.Int.Div\<close> is Euclidean division: the remainder is never negative, whatever the signs.
  A zero divisor panics in Go; every divisor in this development is either \<open>Denom r\<close>, which is
  positive, or a non-zero constant, so that case is not taken (\<open>Div_big x 0 = 0\<close> here).
\<close>

definition Div_big :: "int \<Rightarrow> int \<Rightarrow> int" where
  "Div_big x y = (if 0 < y then x div y else - (x div (- y)))"

section \<open>Protocol constants (cliquepocr.go)\<close>

definition CTCUnit :: int where
  "CTCUnit = 1000000000000000000"

definition MinBlockBetweenAudit :: int where
  "MinBlockBetweenAudit = (3600 div 4) * 24 * 365"

definition PenaltyOnOldFootprint :: int where
  "PenaltyOnOldFootprint = 5"

section \<open>Footprint penalty (calcCarbonFootprintAuditIncentive)\<close>

definition calcCarbonFootprintAuditIncentive :: "int \<Rightarrow> int \<Rightarrow> int \<Rightarrow> int" where
  "calcCarbonFootprintAuditIncentive footprint lastBlock currentBlock =
     (let delta = currentBlock - lastBlock in
      if delta \<le> 0 \<or> footprint \<le> 0 then footprint
      else
        let factor0 = Div_big delta MinBlockBetweenAudit;
            factor1 = factor0 * PenaltyOnOldFootprint;
            factor = factor1 + 100;
            newFootprint0 = footprint * factor;
            newFootprint = Div_big newFootprint0 100
        in newFootprint)"

section \<open>Fee adjustment (calcCarbonFootprintTxFee)\<close>

text \<open>Of a transaction, the post-processing reads only the two fee fields.\<close>

record transaction =
  FeeTransferred :: int
  FeeBurnt :: int

text \<open>The loop over the transactions, with its two accumulators \<open>received\<close> and \<open>burnt\<close>.\<close>

fun sumFees :: "int \<Rightarrow> int \<Rightarrow> transaction list \<Rightarrow> int \<times> int" where
  "sumFees received burnt [] = (received, burnt)"
| "sumFees received burnt (tx # txs) =
     sumFees (received + FeeTransferred tx) (burnt + FeeBurnt tx) txs"

text \<open>
  The parameters \<open>c\<close>, \<open>address\<close> and \<open>header\<close> of the source are not read by its body and are
  left out.
\<close>

definition calcCarbonFootprintTxFee :: "rat \<Rightarrow> transaction list \<Rightarrow> int \<times> int" where
  "calcCarbonFootprintTxFee rank txs =
     (let (received, burnt) = sumFees 0 0 txs;
          expected0 = (of_int received :: rat);
          expected = expected0 * rank;
          adjustment = expected - of_int received
      in (Div_big (Num adjustment) (Denom adjustment), burnt))"

section \<open>Inflation control and reward (RaceRankComputation.go)\<close>

text \<open>
  A Go \<open>error\<close> made by \<open>errors.New\<close> is its message. A run-time panic (an index out of
  range) is kept apart from the errors the source returns.
\<close>

datatype error = Error string | Panic string

text \<open>\<open>big.NewRat a b\<close> and \<open>Rat.SetFrac a b\<close> build the fraction a/b in lowest terms.\<close>

definition NewRat :: "int \<Rightarrow> int \<Rightarrow> rat" where
  "NewRat a b = Fract a b"

definition SetFrac :: "int \<Rightarrow> int \<Rightarrow> rat" where
  "SetFrac a b = Fract a b"

definition inflationDenominator :: int where
  "inflationDenominator = 10000000"

definition minCreationPerBlock :: rat where
  "minCreationPerBlock = NewRat 100000 (365 * 24 * 3600 div 4) * of_int CTCUnit"

text \<open>
  The body follows the source statement by statement: \<open>L\<close>, then \<open>D\<close> grown term by term
  while \<open>L2\<close> holds the successive powers of \<open>L\<close>. \<open>D.Inv\<close> is the reciprocal. Beside the
  error the source returns the rational 0, which its caller drops.
\<close>

definition CalculateGlobalInflationControlFactor :: "int \<Rightarrow> error + rat" where
  "CalculateGlobalInflationControlFactor M =
     (if M < 0 then Inl (Error ''negative total crypto amount is not possible'')
      else if M = 0 then Inr (NewRat 1 1)
      else
        let L0 = SetFrac M (CTCUnit * inflationDenominator);
            L = L0 * NewRat 72 100;
            D0 = NewRat 1 1;
            D1 = D0 + L;
            L2 = L * L;
            D2 = D1 + L2 * NewRat 1 2;
            L3 = L2 * L;
            D3 = D2 + L3 * NewRat 1 6;
            L4 = L3 * L;
            D4 = D3 + L4 * NewRat 1 24
        in Inr (inverse D4))"

text \<open>\<open>nbNodes\<close> is a Go \<open>int\<close>; \<open>big.NewRat (int64 nbNodes) 1\<close> is that integer as a rational.\<close>

definition CalculateCarbonFootprintReward :: "rat \<Rightarrow> int \<Rightarrow> int \<Rightarrow> error + int" where
  "CalculateCarbonFootprintReward rank nbNodes totalCryptoAmount =
     (let rewardCRCUnit0 = rank * of_int CTCUnit;
          rewardCRCUnit1 = rewardCRCUnit0 * NewRat nbNodes 1
      in case CalculateGlobalInflationControlFactor totalCryptoAmount of
           Inl err \<Rightarrow> Inl err
         | Inr inflationFactor \<Rightarrow>
             let rewardCRCUnit2 = rewardCRCUnit1 * inflationFactor;
                 rewardCRCUnit = (if rewardCRCUnit2 < minCreationPerBlock
                                  then minCreationPerBlock else rewardCRCUnit2);
                 u = Div_big (Num rewardCRCUnit) (Denom rewardCRCUnit)
             in Inr u)"

text \<open>
  The closed form the step-by-step computation is compared with: the power series of the
  exponential cut after the term of degree four, and the exponent \<open>L\<close> of a supply \<open>M\<close>.
\<close>

definition series4 :: "rat \<Rightarrow> rat" where
  "series4 L = 1 + L + L^2 / 2 + L^3 / 6 + L^4 / 24"

definition inflationExponent :: "int \<Rightarrow> rat" where
  "inflationExponent M = of_int M / (of_int CTCUnit * of_int inflationDenominator) * (72 / 100)"

section \<open>Rank table and ranking (RaceRankComputation.go)\<close>

text \<open>
  The only mutable field of \<open>RaceRankComputation\<close> is \<open>rankArray\<close>, the cache of rank values;
  functions that touch it take the array and return it, possibly grown.
\<close>

definition NewRaceRankComputation :: "rat list" where
  "NewRaceRankComputation = [NewRat 1 1]"

text \<open>The \<open>for i := len(wp.rankArray); i <= rank; i++\<close> loop of \<open>getRanking\<close>.\<close>

function getRanking_loop :: "rat list \<Rightarrow> rat \<Rightarrow> int \<Rightarrow> int \<Rightarrow> rat list" where
  "getRanking_loop rankArray previous i rank =
     (if i \<le> rank
      then let previous' = previous * NewRat 9 10
           in getRanking_loop (rankArray @ [previous']) previous' (i + 1) rank
      else rankArray)"
  by pat_completeness auto
termination
  by (relation "measure (\<lambda>(rankArray, previous, i, rank). nat (rank + 1 - i))") auto

text \<open>
  Indexing a Go slice outside its bounds panics: reading the last entry of an empty cache, or
  the entry at a negative index.
\<close>

definition getRanking :: "rat list \<Rightarrow> int \<Rightarrow> (error + rat) \<times> rat list" where
  "getRanking rankArray rank =
     (if rankArray = [] then (Inl (Panic ''index out of range''), rankArray)
      else
        let previous = last rankArray;
            rankArray' = getRanking_loop rankArray previous (int (length rankArray)) rank
        in if 0 \<le> rank \<and> rank < int (length rankArray')
           then (Inr (rankArray' ! nat rank), rankArray')
           else (Inl (Panic ''index out of range''), rankArray'))"

text \<open>The counting loop of \<open>CalculateRanking\<close>, with its counter \<open>NbItemsAbove\<close>.\<close>

fun countItemsAbove :: "int \<Rightarrow> int list \<Rightarrow> int \<Rightarrow> int" where
  "countItemsAbove footprint [] NbItemsAbove = NbItemsAbove"
| "countItemsAbove footprint (f # fs) NbItemsAbove =
     countItemsAbove footprint fs
       (if f < footprint \<and> f > 0 then NbItemsAbove + 1 else NbItemsAbove)"

definition CalculateRanking ::
  "rat list \<Rightarrow> int \<Rightarrow> int list \<Rightarrow> (error + rat \<times> int) \<times> rat list" where
  "CalculateRanking rankArray footprint nodesFootprint =
     (if footprint \<le> 0
      then (Inl (Error ''cannot proceed with zero or negative footprint''), rankArray)
      else
        let nbNodes = int (length nodesFootprint) in
        if nbNodes = 0 then (Inl (Error ''cannot rank zero node''), rankArray)
        else
          let NbItemsAbove = countItemsAbove footprint nodesFootprint 0 in
          case getRanking rankArray NbItemsAbove of
            (Inl err, rankArray') \<Rightarrow> (Inl err, rankArray')
          | (Inr rank, rankArray') \<Rightarrow> (Inr (rank, nbNodes), rankArray'))"

text \<open>
  The cache as the specification describes it: entry 0 is 1 and entry k is entry k - 1 times
  9/10. A well-formed cache is a non-empty prefix of that sequence; the constructor makes one
  and \<open>getRanking\<close> keeps it so.
\<close>

definition rankTable :: "nat \<Rightarrow> rat list" where
  "rankTable n = map (\<lambda>k. (9 / 10) ^ k) [0..<n]"

definition rankTable_ok :: "rat list \<Rightarrow> bool" where
  "rankTable_ok rankArray \<longleftrightarrow> rankArray \<noteq> [] \<and> rankArray = rankTable (length rankArray)"

section \<open>Sealer registry synchronisation (synchronizeSealers)\<close>

type_synonym address = "160 word"

definition zeroAddress :: address where
  "zeroAddress = 0"

text \<open>
  The registry of the footprint contract, as the pseudo-code in \<open>synchronizeSealers\<close> names
  its parts: the array \<open>sealers[i]\<close>, the flags \<open>isSealer[s]\<close> and the count \<open>nbNodes\<close> (the
  fields \<open>sto_sealers\<close>, \<open>sto_isSealer\<close> and \<open>sto_nbNodes\<close>). The
  index passed to the accessors is an \<open>int64\<close> and the count is read as a \<open>uint64\<close>; both are
  64-bit words here, so the conversions \<open>int64(i)\<close> and \<open>uint64(len(signers))\<close> keep the bits.
  The field \<open>sto_writes\<close> is the journal of storage writes, in the order they were made.
\<close>

datatype storageWrite =
  WriteSealerAt "64 word" address
| WriteIsSealerOf address bool
| WriteNbNodes "64 word"

record contractStorage =
  sto_sealers :: "64 word \<Rightarrow> address"
  sto_isSealer :: "address \<Rightarrow> bool"
  sto_nbNodes :: "64 word"
  sto_writes :: "storageWrite list"

text \<open>
  Modelled from the spec: the accessors of the contract wrapper (\<open>getNbNodes\<close>, \<open>getSealerAt\<close>,
  \<open>getIsSealerOf\<close>, \<open>setSealerAt\<close>, \<open>setIsSealerOf\<close>, \<open>setNbNodes\<close>) are not among the sources.
  The specification describes the registry as an index-addressable array of (address, enabled)
  pairs plus a count behind a read/write accessor: a read returns what was last written, a
  write changes one cell.
\<close>

definition getNbNodes :: "contractStorage \<Rightarrow> 64 word" where
  "getNbNodes contract = sto_nbNodes contract"

definition getSealerAt :: "contractStorage \<Rightarrow> 64 word \<Rightarrow> address" where
  "getSealerAt contract i = sto_sealers contract i"

definition getIsSealerOf :: "contractStorage \<Rightarrow> address \<Rightarrow> bool" where
  "getIsSealerOf contract a = sto_isSealer contract a"

definition setSealerAt :: "64 word \<Rightarrow> address \<Rightarrow> contractStorage \<Rightarrow> contractStorage" where
  "setSealerAt i a contract =
     contract\<lparr>sto_sealers := (sto_sealers contract)(i := a),
              sto_writes := sto_writes contract @ [WriteSealerAt i a]\<rparr>"

definition setIsSealerOf :: "address \<Rightarrow> bool \<Rightarrow> contractStorage \<Rightarrow> contractStorage" where
  "setIsSealerOf a b contract =
     contract\<lparr>sto_isSealer := (sto_isSealer contract)(a := b),
              sto_writes := sto_writes contract @ [WriteIsSealerOf a b]\<rparr>"

definition setNbNodes :: "64 word \<Rightarrow> contractStorage \<Rightarrow> contractStorage" where
  "setNbNodes n contract =
     contract\<lparr>sto_nbNodes := n, sto_writes := sto_writes contract @ [WriteNbNodes n]\<rparr>"

fun contains :: "address list \<Rightarrow> address \<Rightarrow> bool" where
  "contains [] val = False"
| "contains (v # array) val = (if v = val then True else contains array val)"

text \<open>
  The body of the first loop, \<open>for i := uint64(0); i < nbNodes; i++\<close>: a slot whose address is
  not a signer is disabled and cleared.
\<close>

definition removeStep :: "address list \<Rightarrow> nat \<Rightarrow> contractStorage \<Rightarrow> contractStorage" where
  "removeStep signers i contract =
     (let s = getSealerAt contract (of_nat i) in
      if \<not> contains signers s
      then setSealerAt (of_nat i) zeroAddress (setIsSealerOf s False contract)
      else contract)"

text \<open>The second loop, \<open>for i, signer := range signers\<close>, from index \<open>i\<close> on.\<close>

fun replicateLoop :: "nat \<Rightarrow> address list \<Rightarrow> contractStorage \<Rightarrow> contractStorage" where
  "replicateLoop i [] contract = contract"
| "replicateLoop i (signer # signers) contract =
     (let s = getSealerAt contract (of_nat i);
          e = getIsSealerOf contract signer;
          contract1 = (if s \<noteq> signer then setSealerAt (of_nat i) signer contract else contract);
          contract2 = (if \<not> e then setIsSealerOf signer True contract1 else contract1)
      in replicateLoop (Suc i) signers contract2)"

text \<open>
  \<open>getSigners\<close> asks the embedded engine for the snapshot; its result is the first argument.
  The result is the returned error (\<open>None\<close> for \<open>nil\<close>) and the contract storage.
\<close>

definition synchronizeSealers ::
  "error + address list \<Rightarrow> contractStorage \<Rightarrow> error option \<times> contractStorage" where
  "synchronizeSealers getSigners contract =
     (case getSigners of
        Inl err \<Rightarrow> (Some err, contract)
      | Inr signers \<Rightarrow>
          let nbNodes = getNbNodes contract;
              contract1 = fold (removeStep signers) [0..<unat nbNodes] contract;
              contract2 = replicateLoop 0 signers contract1;
              contract3 = (if nbNodes \<noteq> of_nat (length signers)
                           then setNbNodes (of_nat (length signers)) contract2
                           else contract2)
          in (None, contract3))"

section \<open>Block post-processing (blockPostProcessing)\<close>

text \<open>
  Modelled from the spec: the state database (\<open>state.StateDB\<close> with \<open>AddBalance\<close>, \<open>SubBalance\<close>,
  \<open>SetState\<close>, \<open>GetState\<close>) is not among the sources. The specification gives the accessor
  contract: balances are credited and debited, and a keyed value lives in a storage slot
  derived from its key, where a read returns what was last written. A slot holds a 32-byte
  hash; the slot of a key is the Keccak-256 hash of the key, and distinct keys are taken to
  have distinct slots.
\<close>

record stateDB =
  balance :: "address \<Rightarrow> int"
  sessionVariables :: "string \<Rightarrow> 256 word"
  footprintContract :: contractStorage

definition AddBalance :: "address \<Rightarrow> int \<Rightarrow> stateDB \<Rightarrow> stateDB" where
  "AddBalance a amount state = state\<lparr>balance := (balance state)(a := balance state a + amount)\<rparr>"

definition SubBalance :: "address \<Rightarrow> int \<Rightarrow> stateDB \<Rightarrow> stateDB" where
  "SubBalance a amount state = state\<lparr>balance := (balance state)(a := balance state a - amount)\<rparr>"

text \<open>
  \<open>SetSessionVariable\<close> stores \<open>common.BigToHash(value)\<close> and \<open>ReadSessionVariable\<close> returns
  \<open>GetState(...).Big()\<close>. Both conversions belong to the \<open>common\<close> package: \<open>BigToHash\<close> takes
  the big-endian bytes of the magnitude of the integer (\<open>big.Int.Bytes\<close> drops the sign) and
  keeps the 32 lowest bytes; \<open>Hash.Big\<close> reads the 32 bytes as an unsigned integer.
\<close>

definition BigToHash :: "int \<Rightarrow> 256 word" where
  "BigToHash b = of_int \<bar>b\<bar>"

definition Hash_Big :: "256 word \<Rightarrow> int" where
  "Hash_Big h = uint h"

definition SetSessionVariable :: "string \<Rightarrow> int \<Rightarrow> stateDB \<Rightarrow> stateDB" where
  "SetSessionVariable key val state =
     state\<lparr>sessionVariables := (sessionVariables state)(key := BigToHash val)\<rparr>"

definition ReadSessionVariable :: "string \<Rightarrow> stateDB \<Rightarrow> int" where
  "ReadSessionVariable key state = Hash_Big (sessionVariables state key)"

definition sessionVariableTotalPocRCoins :: string where
  "sessionVariableTotalPocRCoins = ''GeneratedPocRTotal''"

definition getTotalCryptoBalance :: "stateDB \<Rightarrow> int" where
  "getTotalCryptoBalance state = ReadSessionVariable sessionVariableTotalPocRCoins state"

definition addTotalCryptoBalance :: "stateDB \<Rightarrow> int \<Rightarrow> int \<times> stateDB" where
  "addTotalCryptoBalance state val =
     (let currentTotal = ReadSessionVariable sessionVariableTotalPocRCoins state;
          newTotal = currentTotal + val
      in (newTotal, SetSessionVariable sessionVariableTotalPocRCoins newTotal state))"

text \<open>
  What a block's post-processing asks of its collaborators: the header's number, the address
  the embedded engine signs with, the author it recovers from the header, the signers of the
  snapshot, and the footprint contract's answer for an address (the footprint and the block of
  its last audit, or an error).
\<close>

record blockContext =
  Number :: int
  EngineSigner :: address
  headerAuthor :: "error + address"
  snapshotSigners :: "error + address list"
  contractFootprint :: "address \<Rightarrow> error + int \<times> int"

text \<open>
  The loop of \<open>calcCarbonFootprintRanking\<close> over the signers. The source penalises whatever the
  read returned before it looks at the error, and keeps the value only when there is none.
\<close>

fun footprintLoop ::
  "blockContext \<Rightarrow> address \<Rightarrow> address list \<Rightarrow> int list \<Rightarrow> int option \<Rightarrow> int list \<times> int option" where
  "footprintLoop ctx author [] allNodesFootprint footprint = (allNodesFootprint, footprint)"
| "footprintLoop ctx author (signerAddress # signers) allNodesFootprint footprint =
     (case contractFootprint ctx signerAddress of
        Inl err \<Rightarrow> footprintLoop ctx author signers allNodesFootprint footprint
      | Inr (f0, block) \<Rightarrow>
          let f = calcCarbonFootprintAuditIncentive f0 block (Number ctx)
          in footprintLoop ctx author signers (allNodesFootprint @ [f])
               (if signerAddress = author then Some f else footprint))"

text \<open>
  On failure the source returns the error together with the rank \<open>big.NewRat(0, 1)\<close>; on
  success the footprint, the rank, the number of nodes and the total supply read from the
  state. The rank cache may have grown.
\<close>

definition calcCarbonFootprintRanking ::
  "rat list \<Rightarrow> blockContext \<Rightarrow> address \<Rightarrow> stateDB
     \<Rightarrow> (error \<times> rat option + int \<times> rat \<times> int \<times> int) \<times> rat list" where
  "calcCarbonFootprintRanking rankArray ctx author state =
     (case snapshotSigners ctx of
        Inl err \<Rightarrow> (Inl (err, Some (NewRat 0 1)), rankArray)
      | Inr signers \<Rightarrow>
          let (allNodesFootprint, footprint) = footprintLoop ctx author signers [] None in
          case footprint of
            None \<Rightarrow> (Inl (Error ''sealer does not have a footprint'', Some (NewRat 0 1)), rankArray)
          | Some fp \<Rightarrow>
              if fp = 0
              then (Inl (Error ''sealer does not have a footprint'', Some (NewRat 0 1)), rankArray)
              else
                case CalculateRanking rankArray fp allNodesFootprint of
                  (Inl err, rankArray') \<Rightarrow> (Inl (err, Some (NewRat 0 1)), rankArray')
                | (Inr (r, N), rankArray') \<Rightarrow>
                    let M = getTotalCryptoBalance state
                    in (Inr (fp, r, N, M), rankArray'))"

definition calcCarbonFootprintReward :: "int \<Rightarrow> rat \<Rightarrow> int \<Rightarrow> int \<Rightarrow> error + int" where
  "calcCarbonFootprintReward footprint rank nbNodes totalCrypto =
     (case CalculateCarbonFootprintReward rank nbNodes totalCrypto of
        Inl err \<Rightarrow> Inl err
      | Inr reward \<Rightarrow> Inr reward)"

text \<open>
  The engine's state is the rank cache, the chain's is the state database. The log lines of
  the source have no effect on either and are left out. The test \<open>header.Number.Int64() <= 0\<close>
  is on the block number, which fits 63 bits. \<open>rank0\<close> is the rank pointer of the source,
  \<open>None\<close> for \<open>nil\<close>.
\<close>

definition blockPostProcessing ::
  "blockContext \<Rightarrow> transaction list \<Rightarrow> bool \<Rightarrow> rat list \<times> stateDB \<Rightarrow> rat list \<times> stateDB" where
  "blockPostProcessing ctx txs newBlock cs =
     (let (rankArray, state) = cs in
      if Number ctx \<le> 0 then (rankArray, state)
      else
        case (if newBlock then Inr (EngineSigner ctx) else headerAuthor ctx) of
          Inl err \<Rightarrow> (rankArray, state)
        | Inr author \<Rightarrow>
            let (ranking, rankArray') = calcCarbonFootprintRanking rankArray ctx author state;
                (blockReward, rank0) =
                  (case ranking of
                     Inl (err, r) \<Rightarrow> (0, r)
                   | Inr (footprint, r, nbNodes, totalCrypto) \<Rightarrow>
                       (case calcCarbonFootprintReward footprint r nbNodes totalCrypto of
                          Inl err \<Rightarrow> (0, Some r)
                        | Inr reward \<Rightarrow> (reward, Some r)));
                state1 = (if blockReward > 0
                          then snd (addTotalCryptoBalance (AddBalance author blockReward state)
                                      blockReward)
                          else state);
                rank = (case rank0 of None \<Rightarrow> NewRat 0 1 | Some r \<Rightarrow> r);
                (feeAdjustment, burnt) = calcCarbonFootprintTxFee rank txs;
                state2 = (if feeAdjustment > 0
                          then snd (addTotalCryptoBalance (AddBalance author feeAdjustment state1)
                                      feeAdjustment)
                          else if feeAdjustment < 0
                          then snd (addTotalCryptoBalance
                                      (SubBalance author \<bar>feeAdjustment\<bar> state1) feeAdjustment)
                          else state1);
                state3 = (if burnt \<noteq> 0
                          then snd (addTotalCryptoBalance state2 (- burnt))
                          else state2);
                (err, contract') = synchronizeSealers (snapshotSigners ctx) (footprintContract state3)
            in (rankArray', state3\<lparr>footprintContract := contract'\<rparr>))"

section \<open>Example states\<close>

text \<open>
  A registry of two slots holding the addresses 7 and 9, both enabled; a chain state with it,
  zero balances and all session variables 0; and block 1 arriving from another node, sealed by
  the only signer 7, for whom the footprint contract reports footprint 0 at block 0.
\<close>

definition exampleRegistry :: contractStorage where
  "exampleRegistry =
     \<lparr>sto_sealers = (\<lambda>i. if i = 0 then 7 else if i = 1 then 9 else 0),
      sto_isSealer = (\<lambda>a. a = 7 \<or> a = 9),
      sto_nbNodes = 2,
      sto_writes = []\<rparr>"

definition exampleState :: stateDB where
  "exampleState =
     \<lparr>balance = (\<lambda>a. 0), sessionVariables = (\<lambda>key. 0), footprintContract = exampleRegistry\<rparr>"

definition exampleContext :: blockContext where
  "exampleContext =
     \<lparr>Number = 1, EngineSigner = 7, headerAuthor = Inr 7, snapshotSigners = Inr [7],
      contractFootprint = (\<lambda>a. Inr (0, 0))\<rparr>"

section \<open>Facts about the number model\<close>

lemma Denom_pos: "0 < Denom r"
  by (simp add: Denom_def quotient_of_denom_pos')

lemma Div_big_Num_Denom: "Div_big (Num r) (Denom r) = \<lfloor>r\<rfloor>"
proof -
  obtain n d where q: "quotient_of r = (n, d)"
    by (cases "quotient_of r")
  then have d: "0 < d" and r: "r = of_int n / of_int d"
    by (simp_all add: quotient_of_denom_pos quotient_of_div)
  have "\<lfloor>(of_int n / of_int d :: rat)\<rfloor> = n div d"
    by (simp add: floor_divide_of_int_eq)
  with q d r show ?thesis
    by (simp add: Div_big_def Num_def Denom_def)
qed

lemma Div_big_pos: "0 < y \<Longrightarrow> Div_big x y = \<lfloor>(of_int x / of_int y :: rat)\<rfloor>"
  by (simp add: Div_big_def floor_divide_of_int_eq)

lemma sumFees_eq:
  "sumFees received burnt txs =
     (received + sum_list (map FeeTransferred txs), burnt + sum_list (map FeeBurnt txs))"
  by (induction txs arbitrary: received burnt) simp_all

section \<open>Footprint penalty: the formula\<close>

text \<open>
  C7. For all integers footprint, lastAuditBlock and currentBlock, the penalty returns the
  footprint unchanged when currentBlock - lastAuditBlock \<le> 0 or footprint \<le> 0, and otherwise
  the floor of footprint * (100 + floor (delta / MinBlockBetweenAudit) * PenaltyOnOldFootprint)
  / 100, the division by 100 coming last. With the penalty of 5 percent, a footprint of 1000
  audited at block 0 is 1100 at block 2 * MinBlockBetweenAudit.
\<close>

theorem penalize_formula:
  "calcCarbonFootprintAuditIncentive footprint lastBlock currentBlock =
     (if currentBlock - lastBlock \<le> 0 \<or> footprint \<le> 0 then footprint
      else \<lfloor>(of_int (footprint *
                (100 + \<lfloor>(of_int (currentBlock - lastBlock) / of_int MinBlockBetweenAudit :: rat)\<rfloor>
                         * PenaltyOnOldFootprint)) / 100 :: rat)\<rfloor>)
   \<and> PenaltyOnOldFootprint = 5
   \<and> calcCarbonFootprintAuditIncentive 1000 0 (2 * MinBlockBetweenAudit) = 1100"
proof -
  have pos: "0 < MinBlockBetweenAudit"
    by (simp add: MinBlockBetweenAudit_def)
  have general: "calcCarbonFootprintAuditIncentive footprint lastBlock currentBlock =
     (if currentBlock - lastBlock \<le> 0 \<or> footprint \<le> 0 then footprint
      else \<lfloor>(of_int (footprint *
                (100 + \<lfloor>(of_int (currentBlock - lastBlock) / of_int MinBlockBetweenAudit :: rat)\<rfloor>
                         * PenaltyOnOldFootprint)) / 100 :: rat)\<rfloor>)"
    using Div_big_pos [OF pos, of "currentBlock - lastBlock"]
          Div_big_pos [of 100]
    by (simp add: calcCarbonFootprintAuditIncentive_def Let_def add.commute)
  have concrete: "calcCarbonFootprintAuditIncentive 1000 0 (2 * MinBlockBetweenAudit) = 1100"
    by (simp add: calcCarbonFootprintAuditIncentive_def Let_def Div_big_def
        MinBlockBetweenAudit_def PenaltyOnOldFootprint_def)
  from general concrete show ?thesis
    by (simp add: PenaltyOnOldFootprint_def)
qed

theorem penalize_formula_witness:
  "calcCarbonFootprintAuditIncentive 1000 0 7884000 = 1050
   \<and> calcCarbonFootprintAuditIncentive 1000 5 5 = 1000
   \<and> calcCarbonFootprintAuditIncentive (- 3) 0 7884000 = - 3"
proof -
  have a: "calcCarbonFootprintAuditIncentive 1000 0 7884000 = 1050"
    using conjunct1 [OF penalize_formula [of 1000 0 7884000]]
    by (simp add: MinBlockBetweenAudit_def PenaltyOnOldFootprint_def)
  have b: "calcCarbonFootprintAuditIncentive 1000 5 5 = 1000"
    using conjunct1 [OF penalize_formula [of 1000 5 5]] by simp
  have c: "calcCarbonFootprintAuditIncentive (- 3) 0 7884000 = - 3"
    using conjunct1 [OF penalize_formula [of "- 3" 0 7884000]] by simp
  from a b c show ?thesis by simp
qed

section \<open>Fee adjustment: the formula\<close>

text \<open>
  C2. For every rank and every transaction list, with F the sum of the transferred fees, the
  fee adjustment is floor (F * rank) - F and the burnt amount is the sum of the burnt fees;
  this holds in particular for every rank in [0,1]. For rank 1 the adjustment is 0, for rank 0
  it is -F.
\<close>

theorem fee_adjustment_formula:
  "calcCarbonFootprintTxFee rank txs =
     (\<lfloor>of_int (sum_list (map FeeTransferred txs)) * rank\<rfloor> - sum_list (map FeeTransferred txs),
      sum_list (map FeeBurnt txs))
   \<and> calcCarbonFootprintTxFee 1 txs = (0, sum_list (map FeeBurnt txs))
   \<and> calcCarbonFootprintTxFee 0 txs =
       (- sum_list (map FeeTransferred txs), sum_list (map FeeBurnt txs))"
proof -
  have general: "calcCarbonFootprintTxFee r txs =
     (\<lfloor>of_int (sum_list (map FeeTransferred txs)) * r\<rfloor> - sum_list (map FeeTransferred txs),
      sum_list (map FeeBurnt txs))" for r
    by (simp add: calcCarbonFootprintTxFee_def sumFees_eq Div_big_Num_Denom)
  show ?thesis
    using general [of rank] general [of 0] general [of 1] by simp
qed


section \<open>Inflation control: closed form, range and monotonicity\<close>

lemma NewRat_simps:
  "NewRat 1 1 = 1" "NewRat 1 2 = 1 / 2" "NewRat 1 6 = 1 / 6" "NewRat 1 24 = 1 / 24"
  "NewRat 72 100 = 72 / 100" "NewRat 9 10 = 9 / 10" "NewRat 0 1 = 0" "NewRat n 1 = of_int n"
  by (simp_all add: NewRat_def Fract_of_int_quotient)

lemma CF_closed:
  "CalculateGlobalInflationControlFactor M =
     (if M < 0 then Inl (Error ''negative total crypto amount is not possible'')
      else if M = 0 then Inr 1
      else Inr (1 / series4 (inflationExponent M)))"
proof -
  have L: "SetFrac M (CTCUnit * inflationDenominator) * NewRat 72 100 = inflationExponent M"
    by (simp add: SetFrac_def NewRat_simps Fract_of_int_quotient inflationExponent_def)
  show ?thesis
    unfolding CalculateGlobalInflationControlFactor_def Let_def
    unfolding L
    unfolding NewRat_simps
    by (simp add: inverse_eq_divide series4_def power2_eq_square power3_eq_cube power4_eq_xxxx)
qed

lemma series4_strict_mono:
  assumes a: "0 \<le> a" and ab: "a < b"
  shows "series4 a < series4 b"
proof -
  have p2: "a^2 < b^2" using a ab by (simp add: power_strict_mono)
  have p3: "a^3 < b^3" using a ab by (simp add: power_strict_mono)
  have p4: "a^4 < b^4" using a ab by (simp add: power_strict_mono)
  have "a + a^2 / 2 < b + b^2 / 2"
    using ab p2 by (simp add: add_strict_mono divide_strict_right_mono)
  moreover have "a^3 / 6 < b^3 / 6"
    using p3 by (simp add: divide_strict_right_mono)
  moreover have "a^4 / 24 < b^4 / 24"
    using p4 by (simp add: divide_strict_right_mono)
  ultimately show ?thesis
    unfolding series4_def by linarith
qed

lemma series4_ge_1: "0 \<le> a \<Longrightarrow> 1 \<le> series4 a"
  unfolding series4_def by (simp add: add_nonneg_nonneg)

lemma inflationExponent_mono: "M1 < M2 \<Longrightarrow> inflationExponent M1 < inflationExponent M2"
  by (simp add: inflationExponent_def CTCUnit_def inflationDenominator_def
      divide_strict_right_mono)

lemma inflationExponent_nonneg: "0 \<le> M \<Longrightarrow> 0 \<le> inflationExponent M"
  by (simp add: inflationExponent_def CTCUnit_def inflationDenominator_def)

text \<open>
  C4. For a total supply of 0 the control factor is exactly 1; for a negative supply the
  computation fails with the negative-supply error; for a positive supply M it returns 1/D in
  exact rational arithmetic, with D = 1 + L + L^2/2 + L^3/6 + L^4/24 and
  L = (M / (CTCUnit * inflationDenominator)) * 72/100: the series cut after four terms beyond
  the constant, no more and no fewer.
\<close>

theorem inflation_control_formula:
  "CalculateGlobalInflationControlFactor 0 = Inr 1
   \<and> (M < 0 \<longrightarrow> CalculateGlobalInflationControlFactor M =
         Inl (Error ''negative total crypto amount is not possible''))
   \<and> (0 < M \<longrightarrow>
        (let L = (of_int M / (of_int CTCUnit * of_int inflationDenominator)) * (72 / 100) in
         CalculateGlobalInflationControlFactor M =
           Inr (1 / (1 + L + L^2 / 2 + L^3 / 6 + L^4 / 24))))"
  by (simp add: CF_closed [of M] CF_closed [of 0] series4_def inflationExponent_def Let_def)

theorem inflation_control_formula_witness:
  "CalculateGlobalInflationControlFactor (- 1) =
     Inl (Error ''negative total crypto amount is not possible'')
   \<and> CalculateGlobalInflationControlFactor 10000000000000000000000000 = Inr (390625 / 801799)"
proof -
  have a: "CalculateGlobalInflationControlFactor (- 1) =
     Inl (Error ''negative total crypto amount is not possible'')"
    using inflation_control_formula [of "- 1"] by simp
  have b: "CalculateGlobalInflationControlFactor 10000000000000000000000000 = Inr (390625 / 801799)"
    using inflation_control_formula [of 10000000000000000000000000]
    by (simp add: CTCUnit_def inflationDenominator_def Let_def power2_eq_square
        power3_eq_cube power4_eq_xxxx)
  from a b show ?thesis by simp
qed

text \<open>
  C5. The control factor at supply 0 is 1; for supplies 0 < M1 < M2 the factor at M2 is
  strictly smaller than the factor at M1; and for every supply M \<ge> 0 the computation succeeds
  with a rational in the half-open interval (0,1].
\<close>

theorem inflation_control_range_mono:
  "CalculateGlobalInflationControlFactor 0 = Inr 1
   \<and> (0 < M1 \<and> M1 < M2 \<longrightarrow>
        (\<exists>c1 c2. CalculateGlobalInflationControlFactor M1 = Inr c1
               \<and> CalculateGlobalInflationControlFactor M2 = Inr c2 \<and> c2 < c1))
   \<and> (0 \<le> M \<longrightarrow> (\<exists>c. CalculateGlobalInflationControlFactor M = Inr c \<and> 0 < c \<and> c \<le> 1))"
proof -
  have zero: "CalculateGlobalInflationControlFactor 0 = Inr 1"
    by (simp add: CF_closed)
  have mono: "\<exists>c1 c2. CalculateGlobalInflationControlFactor M1 = Inr c1
               \<and> CalculateGlobalInflationControlFactor M2 = Inr c2 \<and> c2 < c1"
    if "0 < M1" "M1 < M2"
  proof -
    have e1: "0 \<le> inflationExponent M1"
      using that by (simp add: inflationExponent_nonneg)
    have lt: "series4 (inflationExponent M1) < series4 (inflationExponent M2)"
      using e1 inflationExponent_mono [OF that(2)] by (rule series4_strict_mono)
    have pos: "0 < series4 (inflationExponent M1)"
      using series4_ge_1 [OF e1] by linarith
    from lt pos have "1 / series4 (inflationExponent M2) < 1 / series4 (inflationExponent M1)"
      by (simp add: frac_less2)
    with that show ?thesis
      by (simp add: CF_closed)
  qed
  have range: "\<exists>c. CalculateGlobalInflationControlFactor M = Inr c \<and> 0 < c \<and> c \<le> 1"
    if "0 \<le> M"
  proof -
    have "1 \<le> series4 (inflationExponent M)"
      using that by (simp add: series4_ge_1 inflationExponent_nonneg)
    then have "0 < 1 / series4 (inflationExponent M)" "1 / series4 (inflationExponent M) \<le> 1"
      by simp_all
    with that show ?thesis
      by (simp add: CF_closed)
  qed
  from zero mono range show ?thesis by blast
qed

theorem inflation_control_range_mono_witness:
  "(\<exists>c1 c2. CalculateGlobalInflationControlFactor 10000000000000000000000000 = Inr c1
          \<and> CalculateGlobalInflationControlFactor 20000000000000000000000000 = Inr c2
          \<and> c2 < c1)
   \<and> (\<exists>c. CalculateGlobalInflationControlFactor 10000000000000000000000000 = Inr c
          \<and> 0 < c \<and> c \<le> 1)"
  using inflation_control_range_mono
    [of 10000000000000000000000000 20000000000000000000000000 10000000000000000000000000]
  by simp

section \<open>Reward: contract and minimum\<close>

lemma minCreationPerBlock_value: "minCreationPerBlock = 25000000000000000000 / 1971"
  by (simp add: minCreationPerBlock_def NewRat_def CTCUnit_def Fract_of_int_quotient)

lemma minCreationPerBlock_floor: "\<lfloor>minCreationPerBlock\<rfloor> = 12683916793505834"
  unfolding minCreationPerBlock_value by (rule floor_unique) simp_all

lemma Reward_closed:
  "CalculateCarbonFootprintReward rank nbNodes M =
     (case CalculateGlobalInflationControlFactor M of
        Inl err \<Rightarrow> Inl err
      | Inr c \<Rightarrow> Inr \<lfloor>max (rank * of_int CTCUnit * of_int nbNodes * c) minCreationPerBlock\<rfloor>)"
  by (auto simp: CalculateCarbonFootprintReward_def Let_def Div_big_Num_Denom NewRat_simps max_def
      split: sum.splits)

lemma floor_max_minCreation: "\<lfloor>minCreationPerBlock\<rfloor> \<le> \<lfloor>max x minCreationPerBlock\<rfloor>"
  by (rule floor_mono) simp

text \<open>
  As the claim is worded, the reward is at least the minimum reward per block, the rational
  minCreationPerBlock = 25000000000000000000 / 1971, whenever rank and peer count are
  positive. With rank 1/1000, one peer and supply 0 the product is below the minimum, the
  clamp applies, and the truncation returns 12683916793505834, which is below that rational.
\<close>

theorem reward_below_rational_minimum:
  "(0::rat) < 1 / 1000 \<and> (0::int) < 1
   \<and> CalculateCarbonFootprintReward (1 / 1000) 1 0 = Inr 12683916793505834
   \<and> \<not> minCreationPerBlock \<le> of_int 12683916793505834"
proof -
  have z: "CalculateGlobalInflationControlFactor 0 = Inr 1"
    by (simp add: CF_closed)
  have "max (1 / 1000 * rat_of_int CTCUnit * rat_of_int 1 * 1) minCreationPerBlock
          = minCreationPerBlock"
    by (simp add: CTCUnit_def minCreationPerBlock_value)
  then have run: "CalculateCarbonFootprintReward (1 / 1000) 1 0 = Inr 12683916793505834"
    using z by (simp add: Reward_closed minCreationPerBlock_floor)
  have below: "\<not> minCreationPerBlock \<le> of_int 12683916793505834"
    by (simp add: minCreationPerBlock_value)
  from run below show ?thesis
    by simp
qed

text \<open>
  C3. For every rank \<ge> 0, peer count \<ge> 0 and total supply M, the reward computation fails
  exactly when the inflation-control factor fails, which is when M < 0, and with the same
  error. On success it returns the truncation to an integer of rank * CTCUnit * nbNodes *
  controlFactor(M) raised to minCreationPerBlock when below it. The result is never negative,
  and whenever rank > 0 and nbNodes > 0 it is at least the truncation to an integer of
  minCreationPerBlock, hence less than one base unit below minCreationPerBlock itself.
\<close>

theorem reward_contract:
  assumes "0 \<le> rank" and "0 \<le> nbNodes"
  shows "(\<forall>e. CalculateCarbonFootprintReward rank nbNodes M = Inl e
              \<longleftrightarrow> CalculateGlobalInflationControlFactor M = Inl e)
       \<and> ((\<exists>e. CalculateCarbonFootprintReward rank nbNodes M = Inl e) \<longleftrightarrow> M < 0)
       \<and> (\<forall>c. CalculateGlobalInflationControlFactor M = Inr c \<longrightarrow>
              CalculateCarbonFootprintReward rank nbNodes M =
                Inr \<lfloor>max (rank * of_int CTCUnit * of_int nbNodes * c) minCreationPerBlock\<rfloor>)
       \<and> (\<forall>u. CalculateCarbonFootprintReward rank nbNodes M = Inr u \<longrightarrow>
              0 \<le> u \<and> (0 < rank \<and> 0 < nbNodes \<longrightarrow>
                         \<lfloor>minCreationPerBlock\<rfloor> \<le> u \<and> minCreationPerBlock - 1 < of_int u))"
proof -
  have fails: "(\<exists>e. CalculateGlobalInflationControlFactor M = Inl e) \<longleftrightarrow> M < 0"
    by (simp add: CF_closed)
  have ge: "\<lfloor>minCreationPerBlock\<rfloor> \<le> \<lfloor>max x minCreationPerBlock\<rfloor>" for x
    by (rule floor_max_minCreation)
  have near: "minCreationPerBlock - 1 < of_int \<lfloor>max x minCreationPerBlock\<rfloor>" for x
  proof -
    have "max x minCreationPerBlock - 1 < of_int \<lfloor>max x minCreationPerBlock\<rfloor>"
      by linarith
    then show ?thesis
      by linarith
  qed
  have pos: "0 \<le> \<lfloor>minCreationPerBlock\<rfloor>"
    by (simp add: minCreationPerBlock_floor)
  show ?thesis
    using fails ge near pos
    by (auto simp: Reward_closed split: sum.splits)
qed

theorem reward_contract_witness:
  "CalculateCarbonFootprintReward (9 / 10) 4 0 = Inr 3600000000000000000
   \<and> (\<exists>e. CalculateCarbonFootprintReward (9 / 10) 4 (- 1) = Inl e)"
proof -
  have h: "(0::rat) \<le> 9 / 10" "(0::int) \<le> 4" by simp_all
  have z: "CalculateGlobalInflationControlFactor 0 = Inr 1"
    by (simp add: CalculateGlobalInflationControlFactor_def NewRat_def One_rat_def)
  have a: "CalculateCarbonFootprintReward (9 / 10) 4 0 = Inr 3600000000000000000"
    using reward_contract [OF h, of 0] z
    by (simp add: CTCUnit_def minCreationPerBlock_value)
  have b: "\<exists>e. CalculateCarbonFootprintReward (9 / 10) 4 (- 1) = Inl e"
    using reward_contract [OF h, of "- 1", THEN conjunct2, THEN conjunct1] by simp
  from a b show ?thesis by simp
qed

text \<open>
  C10. The minimum-reward clamp is unconditional: for every rank \<ge> 0 (0 included), every peer
  count \<ge> 0 (0 included) and every total supply M \<ge> 0, the reward computation succeeds with at
  least the truncation to an integer of minCreationPerBlock, which is strictly positive; with
  rank 0 it returns exactly that amount, never 0.
\<close>

theorem min_reward_unconditional:
  assumes "0 \<le> rank" and "0 \<le> nbNodes" and "0 \<le> M"
  shows "(\<exists>u. CalculateCarbonFootprintReward rank nbNodes M = Inr u
            \<and> Div_big (Num minCreationPerBlock) (Denom minCreationPerBlock) \<le> u)
       \<and> 0 < Div_big (Num minCreationPerBlock) (Denom minCreationPerBlock)
       \<and> CalculateCarbonFootprintReward 0 nbNodes M =
           Inr (Div_big (Num minCreationPerBlock) (Denom minCreationPerBlock))"
proof -
  obtain c where c: "CalculateGlobalInflationControlFactor M = Inr c"
    using assms(3) by (cases "M = 0") (simp_all add: CF_closed)
  have first: "\<exists>u. CalculateCarbonFootprintReward rank nbNodes M = Inr u
            \<and> Div_big (Num minCreationPerBlock) (Denom minCreationPerBlock) \<le> u"
    using c by (simp add: Reward_closed Div_big_Num_Denom floor_max_minCreation)
  have second: "0 < Div_big (Num minCreationPerBlock) (Denom minCreationPerBlock)"
    by (simp add: Div_big_Num_Denom minCreationPerBlock_floor)
  have "0 < minCreationPerBlock"
    by (simp add: minCreationPerBlock_value)
  then have third: "CalculateCarbonFootprintReward 0 nbNodes M =
           Inr (Div_big (Num minCreationPerBlock) (Denom minCreationPerBlock))"
    using c by (simp add: Reward_closed Div_big_Num_Denom max_def)
  from first second third show ?thesis by simp
qed

theorem min_reward_unconditional_witness:
  "CalculateCarbonFootprintReward 0 0 0 = Inr 12683916793505834"
proof -
  have h: "(0::rat) \<le> 0" "(0::int) \<le> 0" by simp_all
  show ?thesis
    using min_reward_unconditional [OF h h(2)]
    by (simp add: Div_big_Num_Denom minCreationPerBlock_floor)
qed

section \<open>Rank table and ranking\<close>

lemma rankTable_Suc: "rankTable (Suc n) = rankTable n @ [(9 / 10) ^ n]"
  by (simp add: rankTable_def)

lemma length_rankTable: "length (rankTable n) = n"
  by (simp add: rankTable_def)

lemma rankTable_nth: "k < n \<Longrightarrow> rankTable n ! k = (9 / 10) ^ k"
  by (simp add: rankTable_def)

lemma getRanking_loop_rankTable:
  "0 < n \<Longrightarrow>
   getRanking_loop (rankTable n) ((9 / 10) ^ (n - 1)) (int n) rank
     = rankTable (max n (nat (rank + 1)))"
proof (induction "nat (rank + 1 - int n)" arbitrary: n)
  case 0
  then have "\<not> int n \<le> rank" and "max n (nat (rank + 1)) = n"
    by simp_all
  then show ?case
    by (subst getRanking_loop.simps) simp
next
  case (Suc m)
  then have le: "int n \<le> rank"
    by simp
  have step: "rankTable n @ [(9 / 10) ^ (n - 1) * NewRat 9 10] = rankTable (Suc n)"
    using Suc.prems by (cases n) (simp_all add: rankTable_Suc NewRat_simps)
  have prev: "(9 / 10) ^ (n - 1) * NewRat 9 10 = (9 / 10 :: rat) ^ (Suc n - 1)"
    using Suc.prems by (cases n) (simp_all add: NewRat_simps)
  have m: "m = nat (rank + 1 - int (Suc n))"
    using Suc.hyps(2) by simp
  have "getRanking_loop (rankTable n) ((9 / 10) ^ (n - 1)) (int n) rank =
        getRanking_loop (rankTable (Suc n)) ((9 / 10) ^ (Suc n - 1)) (int (Suc n)) rank"
    using le step prev
    by (subst getRanking_loop.simps) (simp add: Let_def add.commute)
  also have "\<dots> = rankTable (max (Suc n) (nat (rank + 1)))"
    using Suc.hyps(1) [OF m] by simp
  also have "max (Suc n) (nat (rank + 1)) = max n (nat (rank + 1))"
    using le by simp
  finally show ?case .
qed

lemma getRanking_ok:
  assumes "rankTable_ok rankArray" and "0 \<le> rank"
  shows "getRanking rankArray rank =
           (Inr ((9 / 10) ^ nat rank), rankTable (max (length rankArray) (nat (rank + 1))))"
proof -
  let ?n = "length rankArray"
  from assms(1) have n: "0 < ?n" and eq: "rankArray = rankTable ?n"
    by (simp_all add: rankTable_ok_def)
  have last: "last rankArray = (9 / 10) ^ (?n - 1)"
    using n eq by (metis assms(1) diff_less last_conv_nth length_greater_0_conv rankTable_nth rankTable_ok_def zero_less_one)
  have loop: "getRanking_loop rankArray (last rankArray) (int ?n) rank
                = rankTable (max ?n (nat (rank + 1)))"
    using getRanking_loop_rankTable [OF n, of rank] eq last by simp
  show ?thesis
    using assms(2) n loop
    by (auto simp: getRanking_def Let_def length_rankTable rankTable_nth)
qed

lemma countItemsAbove_eq:
  "countItemsAbove footprint fs n = n + int (length (filter (\<lambda>p. 0 < p \<and> p < footprint) fs))"
  by (induction fs arbitrary: n) auto

lemma rankTable_ok_rankTable: "0 < n \<Longrightarrow> rankTable_ok (rankTable n)"
  by (auto simp: rankTable_ok_def length_rankTable rankTable_def)

lemma rankTable_ok_New: "rankTable_ok NewRaceRankComputation"
  by (simp add: rankTable_ok_def NewRaceRankComputation_def rankTable_def NewRat_simps)

lemma CalculateRanking_closed:
  assumes "rankTable_ok rankArray"
  shows "CalculateRanking rankArray footprint peers =
     (if footprint \<le> 0
      then (Inl (Error ''cannot proceed with zero or negative footprint''), rankArray)
      else if peers = [] then (Inl (Error ''cannot rank zero node''), rankArray)
      else (Inr ((9 / 10) ^ length (filter (\<lambda>p. 0 < p \<and> p < footprint) peers),
                 int (length peers)),
            rankTable (max (length rankArray)
                           (Suc (length (filter (\<lambda>p. 0 < p \<and> p < footprint) peers))))))"
proof -
  let ?b = "length (filter (\<lambda>p. 0 < p \<and> p < footprint) peers)"
  have "getRanking rankArray (int ?b) =
          (Inr ((9 / 10) ^ ?b), rankTable (max (length rankArray) (Suc ?b)))"
    using getRanking_ok [OF assms, of "int ?b"] by (simp add: nat_add_distrib)
  then show ?thesis
    by (simp add: CalculateRanking_def Let_def countItemsAbove_eq)
qed

text \<open>
  C6. On a well-formed rank cache, the ranking fails exactly when the footprint is \<le> 0 or the
  peer list is empty (the footprint being checked first). On success it returns the length of
  the peer list as peer count and, as rank, the entry of the rank table at index better, the
  number of peers whose footprint is strictly greater than 0 and strictly less than the
  signer's footprint; the cache stays well-formed. For footprint 100 and peers
  [50, 100, 150, 0] on a fresh cache it returns rank 9/10 and peer count 4.
\<close>

theorem ranking_contract:
  assumes "rankTable_ok rankArray"
  shows "((\<exists>e. fst (CalculateRanking rankArray footprint peers) = Inl e)
            \<longleftrightarrow> footprint \<le> 0 \<or> peers = [])
       \<and> (footprint \<le> 0 \<longrightarrow> fst (CalculateRanking rankArray footprint peers) =
             Inl (Error ''cannot proceed with zero or negative footprint''))
       \<and> (0 < footprint \<and> peers = [] \<longrightarrow> fst (CalculateRanking rankArray footprint peers) =
             Inl (Error ''cannot rank zero node''))
       \<and> (0 < footprint \<and> peers \<noteq> [] \<longrightarrow> fst (CalculateRanking rankArray footprint peers) =
             Inr (rankTable (Suc (length (filter (\<lambda>p. 0 < p \<and> p < footprint) peers)))
                    ! length (filter (\<lambda>p. 0 < p \<and> p < footprint) peers),
                  int (length peers)))
       \<and> rankTable_ok (snd (CalculateRanking rankArray footprint peers))
       \<and> fst (CalculateRanking NewRaceRankComputation 100 [50, 100, 150, 0]) = Inr (9 / 10, 4)"
proof -
  have ok': "rankTable_ok (snd (CalculateRanking rankArray footprint peers))"
    using assms by (simp add: CalculateRanking_closed rankTable_ok_rankTable)
  have concrete: "fst (CalculateRanking NewRaceRankComputation 100 [50, 100, 150, 0])
                    = Inr (9 / 10, 4)"
    by (simp add: CalculateRanking_closed [OF rankTable_ok_New])
  show ?thesis
    using ok' concrete
    by (simp add: CalculateRanking_closed [OF assms] rankTable_nth)
qed

theorem ranking_contract_witness:
  "rankTable_ok [1, 9 / 10]
   \<and> fst (CalculateRanking [1, 9 / 10] 100 [50, 60, 150, 0]) = Inr (81 / 100, 4)
   \<and> fst (CalculateRanking [1, 9 / 10] 0 [50]) =
        Inl (Error ''cannot proceed with zero or negative footprint'')
   \<and> fst (CalculateRanking [1, 9 / 10] 100 []) = Inl (Error ''cannot rank zero node'')"
proof -
  have ok: "rankTable_ok [1, 9 / 10]"
    by (simp add: rankTable_ok_def rankTable_def upt_rec)
  have a: "fst (CalculateRanking [1, 9 / 10] 100 [50, 60, 150, 0]) = Inr (81 / 100, 4)"
    using ranking_contract [OF ok, of 100 "[50, 60, 150, 0]"]
    by (simp add: rankTable_def upt_rec power2_eq_square)
  have b: "fst (CalculateRanking [1, 9 / 10] 0 [50]) =
        Inl (Error ''cannot proceed with zero or negative footprint'')"
    using ranking_contract [OF ok, of 0 "[50]"] by simp
  have c: "fst (CalculateRanking [1, 9 / 10] 100 []) = Inl (Error ''cannot rank zero node'')"
    using ranking_contract [OF ok, of 100 "[]"] by simp
  from ok a b c show ?thesis by simp
qed

text \<open>
  C8. For a fixed peer list and two footprints 0 < f1 < f2, if the ranking succeeds on both
  (each on a well-formed cache), the rank returned for f1 is greater than or equal to the rank
  returned for f2.
\<close>

theorem rank_monotone_in_footprint:
  assumes "rankTable_ok rankArray1" and "rankTable_ok rankArray2"
    and "0 < f1" and "f1 < f2"
    and "fst (CalculateRanking rankArray1 f1 peers) = Inr (rank1, n1)"
    and "fst (CalculateRanking rankArray2 f2 peers) = Inr (rank2, n2)"
  shows "rank2 \<le> rank1"
proof -
  let ?b1 = "length (filter (\<lambda>p. 0 < p \<and> p < f1) peers)"
  let ?b2 = "length (filter (\<lambda>p. 0 < p \<and> p < f2) peers)"
  have ne: "peers \<noteq> []"
    using assms(1,3,5) by (auto simp: CalculateRanking_closed)
  have r1: "rank1 = (9 / 10) ^ ?b1"
    using assms(1,3,5) ne by (simp add: CalculateRanking_closed)
  have r2: "rank2 = (9 / 10) ^ ?b2"
    using assms(2,3,4,6) ne by (simp add: CalculateRanking_closed)
  have "filter (\<lambda>p. 0 < p \<and> p < f1) peers = filter (\<lambda>p. 0 < p \<and> p < f1) (filter (\<lambda>p. 0 < p \<and> p < f2) peers)"
    using assms(4) by (auto intro: filter_cong)
  then have "?b1 \<le> ?b2"
    by (metis length_filter_le)
  then show ?thesis
    unfolding r1 r2 by (intro power_decreasing) simp_all
qed

theorem rank_monotone_in_footprint_witness:
  "fst (CalculateRanking NewRaceRankComputation 60 [50, 100, 150, 0]) = Inr (9 / 10, 4)
   \<and> fst (CalculateRanking NewRaceRankComputation 200 [50, 100, 150, 0]) = Inr (729 / 1000, 4)
   \<and> (729 / 1000 :: rat) \<le> 9 / 10"
proof -
  have a: "fst (CalculateRanking NewRaceRankComputation 60 [50, 100, 150, 0]) = Inr (9 / 10, 4)"
    by (simp add: CalculateRanking_closed [OF rankTable_ok_New])
  have b: "fst (CalculateRanking NewRaceRankComputation 200 [50, 100, 150, 0]) = Inr (729 / 1000, 4)"
    by (simp add: CalculateRanking_closed [OF rankTable_ok_New] power3_eq_cube)
  have "(729 / 1000 :: rat) \<le> 9 / 10"
    using rank_monotone_in_footprint [OF rankTable_ok_New rankTable_ok_New _ _ a b] by simp
  with a b show ?thesis by blast
qed

section \<open>Sealer registry synchronisation\<close>

lemma contains_iff: "contains array val \<longleftrightarrow> val \<in> set array"
  by (induction array) auto

lemma word64_of_nat_inj:
  assumes "a < 2 ^ 64" and "b < 2 ^ 64" and "(of_nat a :: 64 word) = of_nat b"
  shows "a = b"
proof -
  have "unat (of_nat a :: 64 word) = unat (of_nat b :: 64 word)"
    using assms(3) by simp
  then show ?thesis
    using assms(1,2) by (simp add: unat_of_nat)
qed

lemma unat_of_nat64: "n < 2 ^ 64 \<Longrightarrow> unat (of_nat n :: 64 word) = n"
  by (simp add: unat_of_nat)

lemma replicateLoop_nbNodes: "sto_nbNodes (replicateLoop i signers c) = sto_nbNodes c"
  by (induction signers arbitrary: i c)
     (simp_all add: Let_def setSealerAt_def setIsSealerOf_def)

lemma replicateLoop_isSealer_mono:
  "sto_isSealer c a \<Longrightarrow> sto_isSealer (replicateLoop i signers c) a"
  by (induction signers arbitrary: i c)
     (simp_all add: Let_def setSealerAt_def setIsSealerOf_def getIsSealerOf_def)

lemma replicateLoop_isSealer:
  "a \<in> set signers \<Longrightarrow> sto_isSealer (replicateLoop i signers c) a"
proof (induction signers arbitrary: i c)
  case Nil
  then show ?case by simp
next
  case (Cons s signers)
  show ?case
  proof (cases "a = s")
    case True
    then show ?thesis
      by (auto simp: Let_def setSealerAt_def setIsSealerOf_def getIsSealerOf_def
          intro!: replicateLoop_isSealer_mono)
  next
    case False
    with Cons show ?thesis
      by (simp add: Let_def)
  qed
qed

lemma replicateLoop_sealers_other:
  "\<forall>j < length signers. w \<noteq> of_nat (i + j) \<Longrightarrow>
   sto_sealers (replicateLoop i signers c) w = sto_sealers c w"
proof (induction signers arbitrary: i c)
  case Nil
  then show ?case by simp
next
  case (Cons s signers)
  have w: "w \<noteq> of_nat i"
    using Cons.prems by force
  have rest: "\<forall>j < length signers. w \<noteq> of_nat (Suc i + j)"
    using Cons.prems by force
  show ?case
    using Cons.IH [OF rest] w
    by (simp add: Let_def setSealerAt_def setIsSealerOf_def)
qed

lemma replicateLoop_sealers:
  "i + length signers \<le> 2 ^ 64 \<Longrightarrow> j < length signers \<Longrightarrow>
   sto_sealers (replicateLoop i signers c) (of_nat (i + j)) = signers ! j"
proof (induction signers arbitrary: i j c)
  case Nil
  then show ?case by simp
next
  case (Cons s signers)
  let ?c1 = "if getSealerAt c (of_nat i) \<noteq> s then setSealerAt (of_nat i) s c else c"
  let ?c2 = "if \<not> getIsSealerOf c s then setIsSealerOf s True ?c1 else ?c1"
  have unfold: "replicateLoop i (s # signers) c = replicateLoop (Suc i) signers ?c2"
    by (simp add: Let_def)
  show ?case
  proof (cases j)
    case 0
    have other: "\<forall>k < length signers. (of_nat i :: 64 word) \<noteq> of_nat (Suc i + k)"
    proof (intro allI impI notI)
      fix k assume k: "k < length signers" and eq: "(of_nat i :: 64 word) = of_nat (Suc i + k)"
      have "i = Suc i + k"
        using Cons.prems(1) k by (intro word64_of_nat_inj [OF _ _ eq]) simp_all
      then show False by simp
    qed
    have "sto_sealers ?c2 (of_nat i) = s"
      by (simp add: setSealerAt_def setIsSealerOf_def getSealerAt_def)
    with 0 show ?thesis
      unfolding unfold by (simp add: replicateLoop_sealers_other [OF other])
  next
    case (Suc j')
    have "sto_sealers (replicateLoop (Suc i) signers ?c2) (of_nat (Suc i + j')) = signers ! j'"
      using Cons.prems Suc by (intro Cons.IH) simp_all
    with Suc show ?thesis
      unfolding unfold by simp
  qed
qed

lemma replicateLoop_noop:
  "\<forall>j < length signers. sto_sealers c (of_nat (i + j)) = signers ! j \<Longrightarrow>
   \<forall>a \<in> set signers. sto_isSealer c a \<Longrightarrow>
   replicateLoop i signers c = c"
proof (induction signers arbitrary: i)
  case Nil
  then show ?case by simp
next
  case (Cons s signers)
  have here: "sto_sealers c (of_nat i) = s"
    using Cons.prems(1) by force
  have rest: "\<forall>j < length signers. sto_sealers c (of_nat (Suc i + j)) = signers ! j"
  proof (intro allI impI)
    fix j assume "j < length signers"
    then show "sto_sealers c (of_nat (Suc i + j)) = signers ! j"
      using Cons.prems(1) [rule_format, of "Suc j"] by simp
  qed
  show ?case
    using Cons.IH [OF rest] Cons.prems(2) here
    by (simp add: Let_def getSealerAt_def getIsSealerOf_def)
qed

lemma removeStep_noop:
  "\<forall>i < n. sto_sealers c (of_nat i) \<in> set signers \<Longrightarrow>
   fold (removeStep signers) [0..<n] c = c"
  by (induction n) (simp_all add: removeStep_def Let_def contains_iff getSealerAt_def)

lemma removeStep_nbNodes: "sto_nbNodes (fold (removeStep signers) [0..<n] c) = sto_nbNodes c"
  by (induction n) (simp_all add: removeStep_def Let_def setSealerAt_def setIsSealerOf_def)

lemma synchronizeSealers_post:
  assumes "length signers < 2 ^ 63"
  shows "\<exists>c'. synchronizeSealers (Inr signers) c = (None, c')
           \<and> (\<forall>j < length signers. sto_sealers c' (of_nat j) = signers ! j)
           \<and> (\<forall>a \<in> set signers. sto_isSealer c' a)
           \<and> sto_nbNodes c' = of_nat (length signers)"
proof -
  define c1 where "c1 = fold (removeStep signers) [0..<unat (sto_nbNodes c)] c"
  define c2 where "c2 = replicateLoop 0 signers c1"
  define c3 where "c3 = (if sto_nbNodes c \<noteq> of_nat (length signers)
                         then setNbNodes (of_nat (length signers)) c2 else c2)"
  have len: "0 + length signers \<le> 2 ^ 64"
    using assms by simp
  have run: "synchronizeSealers (Inr signers) c = (None, c3)"
    by (simp add: synchronizeSealers_def Let_def getNbNodes_def c1_def c2_def c3_def)
  have s2: "\<forall>j < length signers. sto_sealers c2 (of_nat j) = signers ! j"
    using replicateLoop_sealers [OF len, of _ c1] by (simp add: c2_def)
  have e2: "\<forall>a \<in> set signers. sto_isSealer c2 a"
    by (simp add: c2_def replicateLoop_isSealer)
  have n2: "sto_nbNodes c2 = sto_nbNodes c"
    by (simp add: c2_def c1_def replicateLoop_nbNodes removeStep_nbNodes)
  have s3: "\<forall>j < length signers. sto_sealers c3 (of_nat j) = signers ! j"
    using s2 by (simp add: c3_def setNbNodes_def)
  have e3: "\<forall>a \<in> set signers. sto_isSealer c3 a"
    using e2 by (simp add: c3_def setNbNodes_def)
  have n3: "sto_nbNodes c3 = of_nat (length signers)"
    using n2 by (simp add: c3_def setNbNodes_def)
  from run s3 e3 n3 show ?thesis by blast
qed

lemma synchronizeSealers_noop:
  assumes "length signers < 2 ^ 63"
    and "\<forall>j < length signers. sto_sealers c (of_nat j) = signers ! j"
    and "\<forall>a \<in> set signers. sto_isSealer c a"
    and "sto_nbNodes c = of_nat (length signers)"
  shows "synchronizeSealers (Inr signers) c = (None, c)"
proof -
  have n: "unat (of_nat (length signers) :: 64 word) = length signers"
    using assms(1) by (simp add: unat_of_nat64)
  have p1: "fold (removeStep signers) [0..<length signers] c = c"
    using assms(2) by (intro removeStep_noop) simp
  have p2: "replicateLoop 0 signers c = c"
    using assms(2,3) by (intro replicateLoop_noop) simp_all
  show ?thesis
    using assms(4) by (simp add: synchronizeSealers_def Let_def getNbNodes_def n p1 p2)
qed

text \<open>
  C9. Synchronising the registry is idempotent: for every registry state and every signer list
  (a Go slice, so shorter than 2^63), after one run a second run with the same list returns
  the storage as it found it, journal of writes included, so it writes nothing: every slot
  already holds the corresponding signer, every signer is already enabled and the stored count
  already equals the length of the list.
\<close>

theorem synchronize_idempotent:
  assumes "length signers < 2 ^ 63"
  shows "synchronizeSealers (Inr signers) (snd (synchronizeSealers (Inr signers) c))
           = (None, snd (synchronizeSealers (Inr signers) c))
       \<and> sto_writes (snd (synchronizeSealers (Inr signers)
                              (snd (synchronizeSealers (Inr signers) c))))
           = sto_writes (snd (synchronizeSealers (Inr signers) c))
       \<and> (\<forall>j < length signers.
             getSealerAt (snd (synchronizeSealers (Inr signers) c)) (of_nat j) = signers ! j)
       \<and> (\<forall>a \<in> set signers. getIsSealerOf (snd (synchronizeSealers (Inr signers) c)) a)
       \<and> getNbNodes (snd (synchronizeSealers (Inr signers) c)) = of_nat (length signers)"
proof -
  obtain c' where run: "synchronizeSealers (Inr signers) c = (None, c')"
    and s: "\<forall>j < length signers. sto_sealers c' (of_nat j) = signers ! j"
    and e: "\<forall>a \<in> set signers. sto_isSealer c' a"
    and n: "sto_nbNodes c' = of_nat (length signers)"
    using synchronizeSealers_post [OF assms, of c] by blast
  have again: "synchronizeSealers (Inr signers) c' = (None, c')"
    using assms s e n by (rule synchronizeSealers_noop)
  show ?thesis
    using s e n by (simp add: run again getSealerAt_def getIsSealerOf_def getNbNodes_def)
qed

theorem synchronize_idempotent_witness:
  "sto_writes (snd (synchronizeSealers (Inr [9, 5]) exampleRegistry)) =
     [WriteIsSealerOf 7 False, WriteSealerAt 0 0, WriteSealerAt 0 9, WriteSealerAt 1 5,
      WriteIsSealerOf 5 True]
   \<and> sto_writes (snd (synchronizeSealers (Inr [9, 5])
                        (snd (synchronizeSealers (Inr [9, 5]) exampleRegistry)))) =
     [WriteIsSealerOf 7 False, WriteSealerAt 0 0, WriteSealerAt 0 9, WriteSealerAt 1 5,
      WriteIsSealerOf 5 True]"
proof -
  have len: "length [9, 5 :: address] < 2 ^ 63"
    by simp
  have first: "sto_writes (snd (synchronizeSealers (Inr [9, 5]) exampleRegistry)) =
     [WriteIsSealerOf 7 False, WriteSealerAt 0 0, WriteSealerAt 0 9, WriteSealerAt 1 5,
      WriteIsSealerOf 5 True]"
    by (simp add: synchronizeSealers_def exampleRegistry_def Let_def getNbNodes_def upt_rec
        removeStep_def getSealerAt_def getIsSealerOf_def setSealerAt_def setIsSealerOf_def
        setNbNodes_def zeroAddress_def)
  show ?thesis
    using synchronize_idempotent [OF len, of exampleRegistry, THEN conjunct2, THEN conjunct1]
      first
    by simp
qed

section \<open>Total supply counter\<close>

lemma Read_Set_SessionVariable:
  "ReadSessionVariable key (SetSessionVariable key val state) = \<bar>val\<bar> mod 2 ^ 256"
  by (simp add: ReadSessionVariable_def SetSessionVariable_def BigToHash_def Hash_Big_def
      uint_word_of_int)

lemma ReadSessionVariable_range:
  "0 \<le> ReadSessionVariable key state" "ReadSessionVariable key state < 2 ^ 256"
  using uint_lt2p [of "sessionVariables state key"]
  by (simp_all add: ReadSessionVariable_def Hash_Big_def)

text \<open>
  C1. The persisted total-supply counter, the session variable GeneratedPocRTotal, is never
  negative: it is read from a 32-byte storage slot as an unsigned integer, so it is
  non-negative in every chain state, in the state after every addition to it (the reward
  credit, the positive or negative fee adjustment, the burnt-fee deduction all go through
  \<open>addTotalCryptoBalance\<close>) and in the state a block's post-processing leaves. What an
  addition stores is the magnitude of the sum, cut to 256 bits, while the sum it returns keeps
  its sign.
\<close>

theorem total_supply_never_negative:
  "0 \<le> getTotalCryptoBalance state
   \<and> 0 \<le> getTotalCryptoBalance (snd (addTotalCryptoBalance state val))
   \<and> 0 \<le> getTotalCryptoBalance
            (snd (blockPostProcessing ctx txs newBlock (rankArray, state)))
   \<and> fst (addTotalCryptoBalance state val) = getTotalCryptoBalance state + val
   \<and> getTotalCryptoBalance (snd (addTotalCryptoBalance state val))
         = \<bar>getTotalCryptoBalance state + val\<bar> mod 2 ^ 256"
proof -
  have nonneg: "0 \<le> getTotalCryptoBalance st" for st
    by (simp add: getTotalCryptoBalance_def ReadSessionVariable_range)
  have ret: "fst (addTotalCryptoBalance state val) = getTotalCryptoBalance state + val"
    by (simp add: addTotalCryptoBalance_def getTotalCryptoBalance_def Let_def)
  have stored: "getTotalCryptoBalance (snd (addTotalCryptoBalance state val))
                  = \<bar>getTotalCryptoBalance state + val\<bar> mod 2 ^ 256"
    by (simp add: addTotalCryptoBalance_def getTotalCryptoBalance_def Let_def
        Read_Set_SessionVariable)
  from nonneg ret stored show ?thesis
    by simp
qed

theorem total_supply_never_negative_witness:
  "getTotalCryptoBalance exampleState = 0
   \<and> getTotalCryptoBalance
        (snd (blockPostProcessing exampleContext [\<lparr>FeeTransferred = 1, FeeBurnt = 0\<rparr>] False
                (NewRaceRankComputation, exampleState))) = 1
   \<and> 0 \<le> getTotalCryptoBalance
            (snd (blockPostProcessing exampleContext [\<lparr>FeeTransferred = 1, FeeBurnt = 0\<rparr>] False
                    (NewRaceRankComputation, exampleState)))"
proof -
  have start: "getTotalCryptoBalance exampleState = 0"
    by (simp add: exampleState_def getTotalCryptoBalance_def ReadSessionVariable_def
        Hash_Big_def)
  have run: "getTotalCryptoBalance
        (snd (blockPostProcessing exampleContext [\<lparr>FeeTransferred = 1, FeeBurnt = 0\<rparr>] False
                (NewRaceRankComputation, exampleState))) = 1"
    by (simp add: blockPostProcessing_def exampleContext_def exampleState_def Let_def
        calcCarbonFootprintRanking_def calcCarbonFootprintAuditIncentive_def
        calcCarbonFootprintTxFee_def Div_big_Num_Denom NewRat_simps
        getTotalCryptoBalance_def addTotalCryptoBalance_def ReadSessionVariable_def
        SetSessionVariable_def SubBalance_def AddBalance_def BigToHash_def Hash_Big_def
        split: prod.splits)
  have bound: "0 \<le> getTotalCryptoBalance
            (snd (blockPostProcessing exampleContext [\<lparr>FeeTransferred = 1, FeeBurnt = 0\<rparr>] False
                    (NewRaceRankComputation, exampleState)))"
    using total_supply_never_negative
      [of exampleState 0 exampleContext "[\<lparr>FeeTransferred = 1, FeeBurnt = 0\<rparr>]" False
          NewRaceRankComputation]
    by simp
  from start run bound show ?thesis
    by simp
qed

end
